theory Spec2Isabelle
  imports Main "HOL-Library.Sublist" "HOL-Library.AList"
begin

section \<open>Strings\<close>

text \<open>
  Python \<open>str\<close> values are modelled as \<^typ>\<open>string\<close>; the development covers ASCII
  text, where \<open>str.lower\<close> replaces the letters A..Z by a..z and leaves every other
  character alone.
\<close>

definition lower_char :: "char \<Rightarrow> char" where
  "lower_char c =
     (case map_of (zip ''ABCDEFGHIJKLMNOPQRSTUVWXYZ'' ''abcdefghijklmnopqrstuvwxyz'') c of
        Some d \<Rightarrow> d
      | None \<Rightarrow> c)"

definition lower :: "string \<Rightarrow> string" where
  "lower s = map lower_char s"

text \<open>\<open>contains s t\<close> is Python's \<open>t in s\<close> on strings: \<open>t\<close> occurs in \<open>s\<close> as a
  contiguous block, found by trying every start position from the left.\<close>

fun contains :: "string \<Rightarrow> string \<Rightarrow> bool" where
  "contains [] t = (t = [])"
| "contains (c # cs) t = (prefix t (c # cs) \<or> contains cs t)"

text \<open>\<open>str.endswith\<close>.\<close>

definition endswith :: "string \<Rightarrow> string \<Rightarrow> bool" where
  "endswith s t = prefix (rev t) (rev s)"

text \<open>\<open>str.strip()\<close> without argument removes leading and trailing whitespace; on ASCII
  the whitespace characters are TAB, LF, VT, FF, CR, FS, GS, RS, US and the blank.\<close>

definition is_space :: "char \<Rightarrow> bool" where
  "is_space c =
     (c \<in> set [CHR 0x09, CHR 0x0A, CHR 0x0B, CHR 0x0C, CHR 0x0D,
                CHR 0x1C, CHR 0x1D, CHR 0x1E, CHR 0x1F, CHR 0x20])"

definition strip :: "string \<Rightarrow> string" where
  "strip s = rev (dropWhile is_space (rev (dropWhile is_space s)))"

text \<open>\<open>sep.join(xs)\<close>.\<close>

fun join :: "string \<Rightarrow> string list \<Rightarrow> string" where
  "join sep [] = []"
| "join sep [x] = x"
| "join sep (x # y # ys) = x @ sep @ join sep (y # ys)"

section \<open>Enumerations\<close>

text \<open>Modelled from the spec: the enumeration \<open>EmailType\<close> of \<open>models/email.py\<close>, which
  the processor imports; its members are the categories the specification lists.\<close>

datatype EmailType = STANDARD | AUTO_REPLY | BOUNCE | UNSUBSCRIBE | INFRA_REQUEST | OUTGOING

text \<open>Modelled from the spec: the enumeration \<open>EmailStatus\<close> of \<open>models/email.py\<close>;
  RECEIVED, PROCESSED and FAILED are the inbound states, PENDING and SENT the outbound
  ones.\<close>

datatype EmailStatus = RECEIVED | PROCESSED | FAILED | PENDING | SENT

section \<open>Classifier: \<open>_determine_email_type\<close>\<close>

definition auto_reply_indicators :: "string list" where
  "auto_reply_indicators =
     [''auto-reply'', ''automatic reply'', ''auto reply'', ''autoreply'',
      ''out of office'', ''ooo'', ''vacation'', ''away'', ''annual leave'',
      ''automatic response'', ''auto response'', ''auto-response'']"

text \<open>The \<open>for indicator in auto_reply_indicators\<close> loop, which returns from the function
  at the first indicator found in the subject or in the body; the result tells whether
  it returned.\<close>

fun auto_reply_loop :: "string list \<Rightarrow> string \<Rightarrow> string \<Rightarrow> bool" where
  "auto_reply_loop [] subject_lower body_lower = False"
| "auto_reply_loop (indicator # rest) subject_lower body_lower =
     (if contains subject_lower indicator \<or> contains body_lower indicator then True
      else auto_reply_loop rest subject_lower body_lower)"

definition determine_email_type ::
  "string \<Rightarrow> string \<Rightarrow> string \<Rightarrow> string list \<Rightarrow> EmailType" where
  "determine_email_type subject body sender recipients =
     (let subject_lower = lower subject;
          body_lower = lower body
      in if auto_reply_loop auto_reply_indicators subject_lower body_lower then AUTO_REPLY
         else if list_ex (\<lambda>t. contains subject_lower t)
                   [''delivery failed'', ''undeliverable'', ''returned mail'']
         then BOUNCE
         else if contains body_lower ''unsubscribe'' \<or> contains body_lower ''opt-out''
         then UNSUBSCRIBE
         else if list_ex (\<lambda>t. contains subject_lower t)
                   [''infra request'', ''infrastructure request'']
         then INFRA_REQUEST
         else STANDARD)"

section \<open>Request parser: \<open>_parse_infra_request\<close>\<close>

record request_metadata =
  source :: string
  original_subject :: string

record request_data =
  title :: string
  description :: string
  requestor_email :: string
  priority :: string
  environment :: string
  request_metadata :: request_metadata

text \<open>The dictionaries \<open>priority_terms\<close> and \<open>env_terms\<close> are iterated with \<open>items()\<close>,
  that is in insertion order, so they are association lists.\<close>

definition priority_terms :: "(string \<times> string list) list" where
  "priority_terms =
     [(''high'', [''urgent'', ''asap'', ''high priority'', ''blocking'']),
      (''low'', [''low priority'', ''when you can'', ''not urgent''])]"

definition env_terms :: "(string \<times> string list) list" where
  "env_terms =
     [(''production'', [''prod'', ''production'', ''live'']),
      (''staging'', [''staging'', ''pre-prod'', ''preprod''])]"

text \<open>The loop \<open>for name, terms in d.items(): if any(...): ...; break\<close>: the name of the
  first bucket one of whose terms occurs in the lowered body or subject, if there is
  one.\<close>

fun first_bucket :: "(string \<times> string list) list \<Rightarrow> string \<Rightarrow> string \<Rightarrow> string option" where
  "first_bucket [] subject body = None"
| "first_bucket ((name, terms) # rest) subject body =
     (if list_ex (\<lambda>t. contains (lower body) t \<or> contains (lower subject) t) terms
      then Some name
      else first_bucket rest subject body)"

definition parse_infra_request :: "string \<Rightarrow> string \<Rightarrow> string \<Rightarrow> request_data" where
  "parse_infra_request subject body sender =
     (let request_data =
            \<lparr>title = subject, description = body, requestor_email = sender,
             priority = ''normal'', environment = ''development'',
             request_metadata = \<lparr>source = ''email'', original_subject = subject\<rparr>\<rparr>;
          request_data =
            (case first_bucket priority_terms subject body of
               Some p \<Rightarrow> request_data\<lparr>priority := p\<rparr>
             | None \<Rightarrow> request_data);
          request_data =
            (case first_bucket env_terms subject body of
               Some e \<Rightarrow> request_data\<lparr>environment := e\<rparr>
             | None \<Rightarrow> request_data)
      in request_data)"

section \<open>Messages\<close>

text \<open>
  An \<open>email.message.Message\<close> is a tree. A leaf carries its headers, the value of
  \<open>get_content_type()\<close>, the value of \<open>get_filename()\<close>, the bytes that
  \<open>get_payload(decode=True)\<close> returns, and the text that decoding these bytes with the
  declared character set (\<open>errors="replace"\<close>) gives, \<open>None\<close> when that call raises
  (an unknown character set). A multipart node carries its headers, content type, file
  name and sub-parts; \<open>get_payload(decode=True)\<close> is \<open>None\<close> on it.
\<close>

datatype message =
    Leaf "(string \<times> string) list" string "string option" string "string option"
  | Multipart "(string \<times> string) list" string "string option" "message list"

fun headers :: "message \<Rightarrow> (string \<times> string) list" where
  "headers (Leaf hs ct fn raw txt) = hs"
| "headers (Multipart hs ct fn ps) = hs"

fun get_content_type :: "message \<Rightarrow> string" where
  "get_content_type (Leaf hs ct fn raw txt) = ct"
| "get_content_type (Multipart hs ct fn ps) = ct"

definition get_content_maintype :: "message \<Rightarrow> string" where
  "get_content_maintype m = takeWhile (\<lambda>c. c \<noteq> CHR ''/'') (get_content_type m)"

fun get_filename :: "message \<Rightarrow> string option" where
  "get_filename (Leaf hs ct fn raw txt) = fn"
| "get_filename (Multipart hs ct fn ps) = fn"

fun is_multipart :: "message \<Rightarrow> bool" where
  "is_multipart (Leaf hs ct fn raw txt) = False"
| "is_multipart (Multipart hs ct fn ps) = True"

fun get_payload_decode :: "message \<Rightarrow> string option" where
  "get_payload_decode (Leaf hs ct fn raw txt) = Some raw"
| "get_payload_decode (Multipart hs ct fn ps) = None"

text \<open>\<open>part.get_payload(decode=True).decode(charset, errors="replace")\<close>; \<open>None\<close> when it
  raises, as it does on the \<open>None\<close> payload of a multipart node.\<close>

fun payload_text :: "message \<Rightarrow> string option" where
  "payload_text (Leaf hs ct fn raw txt) = txt"
| "payload_text (Multipart hs ct fn ps) = None"

text \<open>Header lookup \<open>msg.get(name)\<close>: the first header of that name, names compared
  without regard to case.\<close>

fun get_header :: "(string \<times> string) list \<Rightarrow> string \<Rightarrow> string option" where
  "get_header [] name = None"
| "get_header ((k, v) # hs) name =
     (if lower k = lower name then Some v else get_header hs name)"

definition msg_get :: "message \<Rightarrow> string \<Rightarrow> string \<Rightarrow> string" where
  "msg_get m name failobj = (case get_header (headers m) name of Some v \<Rightarrow> v | None \<Rightarrow> failobj)"

text \<open>\<open>msg.walk()\<close>: the message itself, then its sub-parts depth first, in document
  order.\<close>

fun walk :: "message \<Rightarrow> message list" where
  "walk (Leaf hs ct fn raw txt) = [Leaf hs ct fn raw txt]"
| "walk (Multipart hs ct fn ps) = Multipart hs ct fn ps # concat (map walk ps)"

section \<open>Collaborators\<close>

text \<open>An exception is represented by its text \<open>str(e)\<close>.\<close>

type_synonym exc = string

text \<open>
  What the processor does not compute itself is a parameter of the model: the identifier
  source \<open>generate_id\<close> (the n-th call returns \<open>generate_id w n\<close>), the HTML converter, the
  clock, the identifier the store gives a new row, and for every call to a collaborator
  whether it raises: the store when the new record is committed, when it is refreshed,
  when the attachments are committed, when routing commits and when the error state is
  committed; the infrastructure API; the template service behind the two confirmation
  steps; the message parser and the session factory of the listener.
\<close>

record world =
  generate_id :: "nat \<Rightarrow> string"
  html_converter_handle :: "string \<Rightarrow> string"
  utcnow :: nat
  new_email_id :: string
  save_commit_raises :: "exc option"
  save_refresh_raises :: "exc option"
  attachments_commit_raises :: "exc option"
  route_commit_raises :: "exc option"
  error_commit_raises :: "exc option"
  create_infrastructure_request :: "request_data \<Rightarrow> string \<Rightarrow> exc + (string \<times> string) list"
  confirmation_template_raises :: "exc option"
  unsubscribe_template_raises :: "exc option"
  message_from_bytes :: "string \<Rightarrow> exc + message"
  async_session_raises :: "exc option"

section \<open>MIME extractor: \<open>_extract_email_content\<close>\<close>

datatype attachment =
  Attachment (att_filename: string) (att_content_type: string) (att_data: string) (att_size: nat)

definition extension_map :: "(string \<times> string) list" where
  "extension_map =
     [(''text/plain'', ''.txt''),
      (''text/html'', ''.html''),
      (''application/json'', ''.json''),
      (''application/pdf'', ''.pdf''),
      (''image/jpeg'', ''.jpg''),
      (''image/png'', ''.png''),
      (''image/gif'', ''.gif''),
      (''application/msword'', ''.doc''),
      (''application/vnd.openxmlformats-officedocument.wordprocessingml.document'', ''.docx''),
      (''application/vnd.ms-excel'', ''.xls''),
      (''application/vnd.openxmlformats-officedocument.spreadsheetml.sheet'', ''.xlsx''),
      (''application/vnd.ms-powerpoint'', ''.ppt''),
      (''application/vnd.openxmlformats-officedocument.presentationml.presentation'', ''.pptx''),
      (''application/zip'', ''.zip''),
      (''application/x-rar-compressed'', ''.rar''),
      (''application/x-gzip'', ''.gz''),
      (''application/x-tar'', ''.tar'')]"

definition get_extension :: "string \<Rightarrow> string" where
  "get_extension content_type =
     (case map_of extension_map content_type of Some ext \<Rightarrow> ext | None \<Rightarrow> ''.bin'')"

text \<open>
  The body of \<open>for part in msg.walk()\<close>, run over the parts that remain. The loop state is
  the triple of local variables \<open>body\<close>, \<open>content_type\<close>, \<open>attachments\<close> and the number of
  identifiers drawn so far. \<open>content_type\<close> is assigned at the top of every iteration.
  The attachment branch is outside any \<open>try\<close>: \<open>len(attachment_data)\<close> on a \<open>None\<close>
  payload raises out of the function. The body branch is inside one: a part that does
  not decode is skipped. The calls to the logger are left out.
\<close>

fun extract_loop ::
  "world \<Rightarrow> message list \<Rightarrow> string \<times> string \<times> attachment list \<times> nat \<Rightarrow>
   exc + (string \<times> string \<times> attachment list \<times> nat)" where
  "extract_loop w [] st = Inr st"
| "extract_loop w (part # rest) (body, old_content_type, attachments, n) =
     (let content_disposition = msg_get part ''Content-Disposition'' '''';
          content_type = get_content_type part
      in if get_content_maintype part = ''multipart''
         then extract_loop w rest (body, content_type, attachments, n)
         else if contains (lower content_disposition) ''attachment''
         then (let (filename, n') =
                     (case get_filename part of
                        None \<Rightarrow>
                          (''attachment_'' @ generate_id w n @ get_extension content_type, Suc n)
                      | Some f \<Rightarrow>
                          if f = ''''
                          then (''attachment_'' @ generate_id w n @ get_extension content_type,
                                Suc n)
                          else (f, n))
               in case get_payload_decode part of
                    None \<Rightarrow> Inl ''object of type 'NoneType' has no len()''
                  | Some attachment_data \<Rightarrow>
                      extract_loop w rest
                        (body, content_type,
                         attachments @
                           [Attachment filename content_type attachment_data
                              (length attachment_data)],
                         n'))
         else if body = '''' \<and> content_type \<in> set [''text/plain'', ''text/html'']
         then (case payload_text part of
                 None \<Rightarrow> extract_loop w rest (body, content_type, attachments, n)
               | Some txt \<Rightarrow>
                   extract_loop w rest
                     (if content_type = ''text/html'' then html_converter_handle w txt else txt,
                      content_type, attachments, n))
         else extract_loop w rest (body, content_type, attachments, n))"

definition extract_email_content ::
  "world \<Rightarrow> message \<Rightarrow> nat \<Rightarrow> exc + (string \<times> string \<times> attachment list \<times> nat)" where
  "extract_email_content w msg n =
     (if is_multipart msg
      then extract_loop w (walk msg) ('''', ''text/plain'', [], n)
      else (case payload_text msg of
              None \<Rightarrow> Inr ('''', ''text/plain'', [], n)
            | Some txt \<Rightarrow>
                Inr (if get_content_type msg = ''text/html''
                     then html_converter_handle w txt else txt,
                     get_content_type msg, [], n)))"

text \<open>The message of the test fixture \<open>multipart_email_message\<close>: a plain-text part, then
  an HTML part.\<close>

definition multipart_email_message :: message where
  \<open>multipart_email_message =
     Multipart
       [(''Content-Type'', ''multipart/mixed''), (''MIME-Version'', ''1.0''),
        (''From'', ''Test User <test@example.com>''), (''To'', ''recipient@example.com''),
        (''Subject'', ''Test Subject'')]
       ''multipart/mixed'' None
       [Leaf [(''Content-Type'', ''text/plain; charset="us-ascii"''), (''MIME-Version'', ''1.0''),
              (''Content-Transfer-Encoding'', ''7bit'')]
          ''text/plain'' None
          ''This is the plain text version'' (Some ''This is the plain text version''),
        Leaf [(''Content-Type'', ''text/html; charset="us-ascii"''), (''MIME-Version'', ''1.0''),
              (''Content-Transfer-Encoding'', ''7bit'')]
          ''text/html'' None
          ''<p>This is the HTML version</p>'' (Some ''<p>This is the HTML version</p>'')]\<close>

section \<open>Records of the store\<close>

datatype meta_value = MStr string | MNone | MDict "(string \<times> string) list"

text \<open>Modelled from the spec: the \<open>Email\<close> model of \<open>models/email.py\<close>, with the
  attributes the processor gives to \<open>EmailCreate\<close>, reads or assigns; \<open>ident\<close> is its
  \<open>id\<close>, empty until the store assigns it; \<open>error\<close>, \<open>processed_at\<close> and \<open>sent_at\<close> are
  unset on a new record. A dictionary is an
  association list in insertion order; time is a number.\<close>

record Email =
  ident :: string
  message_id :: string
  in_reply_to :: "string option"
  references :: string
  sender :: string
  recipients :: string
  subject :: string
  body :: string
  content_type :: string
  status :: EmailStatus
  email_type :: EmailType
  metadata :: "(string \<times> meta_value) list"
  error :: "string option"
  processed_at :: "nat option"
  sent_at :: "nat option"

text \<open>Modelled from the spec: the \<open>EmailAttachment\<close> model of \<open>models/email.py\<close>, with
  the attributes \<open>_process_attachments\<close> gives to \<open>EmailAttachmentCreate\<close>.\<close>

datatype EmailAttachment =
  EmailAttachment (row_email_id: string) (row_filename: string) (row_content_type: string)
    (row_size: nat) (row_storage_path: string) (row_metadata: "(string \<times> string) list")

text \<open>What a call leaves behind besides its result: the calls made to the
  infrastructure API and to the template service, and the errors logged.\<close>

datatype event = ApiRequest request_data string | TemplateRequest string | LogError string

fun is_api_request :: "event \<Rightarrow> bool" where
  "is_api_request (ApiRequest d u) = True"
| "is_api_request ev = False"

fun is_template_request :: "event \<Rightarrow> bool" where
  "is_template_request (TemplateRequest t) = True"
| "is_template_request ev = False"

text \<open>The state around the processing of one message: the row of the message as of the
  last commit that succeeded, the attachment rows committed, the events so far and the
  number of identifiers drawn from \<open>generate_id\<close>.\<close>

record pstate =
  committed :: "Email option"
  attachment_rows :: "EmailAttachment list"
  events :: "event list"
  ids_drawn :: nat

definition log_error :: "string \<Rightarrow> pstate \<Rightarrow> pstate" where
  "log_error t st = st\<lparr>events := events st @ [LogError t]\<rparr>"

text \<open>\<open>dict(pairs)\<close>: a later pair of the same key replaces the value.\<close>

definition dict :: "(string \<times> 'v) list \<Rightarrow> (string \<times> 'v) list" where
  "dict xs = fold (\<lambda>(k, v) d. AList.update k v d) xs []"

section \<open>Routing: \<open>_save_email\<close> to \<open>_route_email\<close>\<close>

text \<open>
  A coroutine that returns nothing gives \<open>None\<close> when it completes and \<open>Some e\<close> when it
  raises \<open>e\<close>. The Python mutates the \<open>Email\<close> object in place; here each function returns
  the object as it leaves it, also when it raises.
\<close>

text \<open>\<open>_save_email\<close> makes two calls to the store, \<open>db.commit()\<close> and then
  \<open>db.refresh(db_email)\<close>. When the commit raises nothing is stored; when the refresh
  raises the row is stored already, and the exception leaves the function before it
  returns the object.\<close>

definition save_email :: "world \<Rightarrow> Email \<Rightarrow> pstate \<Rightarrow> (exc + Email) \<times> pstate" where
  "save_email w email_data st =
     (let db_email = email_data\<lparr>ident := new_email_id w\<rparr>
      in case save_commit_raises w of
           Some e \<Rightarrow> (Inl e, st)
         | None \<Rightarrow>
             (let st1 = st\<lparr>committed := Some db_email\<rparr>
              in case save_refresh_raises w of
                   Some e \<Rightarrow> (Inl e, st1)
                 | None \<Rightarrow> (Inr db_email, st1)))"

definition process_attachments ::
  "world \<Rightarrow> string \<Rightarrow> attachment list \<Rightarrow> pstate \<Rightarrow> exc option \<times> pstate" where
  "process_attachments w email_id attachments st =
     (let rows =
            map (\<lambda>a. EmailAttachment email_id (att_filename a) (att_content_type a) (att_size a)
                       (''attachments/'' @ email_id @ ''/'' @ att_filename a)
                       [(''original_filename'', att_filename a)])
              attachments
      in case attachments_commit_raises w of
           Some e \<Rightarrow> (Some e, st)
         | None \<Rightarrow> (None, st\<lparr>attachment_rows := attachment_rows st @ rows\<rparr>))"

text \<open>The two confirmation steps catch what the template service raises, log it and
  return.\<close>

definition send_confirmation_email ::
  "world \<Rightarrow> Email \<Rightarrow> (string \<times> string) list \<Rightarrow> pstate \<Rightarrow> pstate" where
  "send_confirmation_email w email response st =
     (let st1 = st\<lparr>events := events st @ [TemplateRequest ''infra_request_confirmation'']\<rparr>
      in case confirmation_template_raises w of
           Some e \<Rightarrow> log_error (''Error sending confirmation email: '' @ e) st1
         | None \<Rightarrow> st1)"

definition send_unsubscribe_confirmation :: "world \<Rightarrow> Email \<Rightarrow> pstate \<Rightarrow> pstate" where
  "send_unsubscribe_confirmation w email st =
     (let st1 = st\<lparr>events := events st @ [TemplateRequest ''unsubscribe_confirmation'']\<rparr>
      in case unsubscribe_template_raises w of
           Some e \<Rightarrow> log_error (''Error sending unsubscribe confirmation: '' @ e) st1
         | None \<Rightarrow> st1)"

text \<open>The handler of an infrastructure request logs what the API call raises and
  raises it again. \<open>email.metadata or {}\<close> is the association list itself, the empty
  dictionary being the empty list.\<close>

definition handle_infra_request ::
  "world \<Rightarrow> Email \<Rightarrow> string \<Rightarrow> pstate \<Rightarrow> exc option \<times> Email \<times> pstate" where
  "handle_infra_request w email body' st =
     (let request_data = parse_infra_request (subject email) body' (sender email);
          st1 = st\<lparr>events := events st @ [ApiRequest request_data (sender email)]\<rparr>
      in case create_infrastructure_request w request_data (sender email) of
           Inl e \<Rightarrow>
             (Some e, email,
              log_error (''Error processing infrastructure request: '' @ e) st1)
         | Inr response \<Rightarrow>
             (let email1 =
                    email\<lparr>metadata :=
                      AList.update ''api_response'' (MDict response)
                        (AList.update ''infra_request_id''
                           (case map_of response ''id'' of Some i \<Rightarrow> MStr i | None \<Rightarrow> MNone)
                           (metadata email))\<rparr>
              in (None, email1, send_confirmation_email w email1 response st1)))"

definition handle_unsubscribe :: "world \<Rightarrow> Email \<Rightarrow> pstate \<Rightarrow> exc option \<times> Email \<times> pstate" where
  "handle_unsubscribe w email st = (None, email, send_unsubscribe_confirmation w email st)"

definition handle_standard_email ::
  "world \<Rightarrow> Email \<Rightarrow> pstate \<Rightarrow> exc option \<times> Email \<times> pstate" where
  "handle_standard_email w email st = (None, email, st)"

definition route_email ::
  "world \<Rightarrow> Email \<Rightarrow> EmailType \<Rightarrow> string \<Rightarrow> pstate \<Rightarrow> exc option \<times> Email \<times> pstate" where
  "route_email w email email_type' body' st =
     (let (raised, email1, st1) =
            (if email_type' = INFRA_REQUEST then handle_infra_request w email body' st
             else if email_type' = UNSUBSCRIBE then handle_unsubscribe w email st
             else handle_standard_email w email st);
          (email2, st2) =
            (case raised of
               None \<Rightarrow> (email1\<lparr>status := PROCESSED\<rparr>, st1)
             | Some e \<Rightarrow>
                 (email1\<lparr>status := FAILED, error := Some e\<rparr>,
                  log_error (''Error routing email: '' @ e) st1));
          email3 = email2\<lparr>processed_at := Some (utcnow w)\<rparr>
      in case route_commit_raises w of
           Some e \<Rightarrow> (Some e, email3, st2)
         | None \<Rightarrow> (None, email3, st2\<lparr>committed := Some email3\<rparr>))"

text \<open>
  What \<open>_update_email_status\<close> of \<open>response_sender.py\<close> assigns on the row it finds:
  the status, the error when one is given and is not empty, and the timestamp that goes
  with the status, each timestamp only when it is not set yet (\<open>x or datetime.utcnow()\<close>).
\<close>

definition update_email_status ::
  "world \<Rightarrow> Email \<Rightarrow> EmailStatus \<Rightarrow> string option \<Rightarrow> Email" where
  "update_email_status w db_email status' error' =
     (let db_email1 = db_email\<lparr>status := status'\<rparr>;
          db_email2 =
            (case error' of
               None \<Rightarrow> db_email1
             | Some t \<Rightarrow> if t = '''' then db_email1 else db_email1\<lparr>error := Some t\<rparr>)
      in if status' = SENT
         then db_email2\<lparr>sent_at :=
                Some (case sent_at db_email2 of Some t \<Rightarrow> t | None \<Rightarrow> utcnow w)\<rparr>
         else if status' \<in> set [PROCESSED, FAILED]
         then db_email2\<lparr>processed_at :=
                Some (case processed_at db_email2 of Some t \<Rightarrow> t | None \<Rightarrow> utcnow w)\<rparr>
         else db_email2)"

section \<open>\<open>process_email\<close>\<close>

text \<open>
  The \<open>try\<close> block of \<open>process_email\<close>. The result is the value returned or the exception
  that leaves the block, together with the local variable \<open>db_email\<close> (\<open>None\<close> while it is
  unbound) and the state. \<open>generate_id()\<close> is evaluated for the default of the Message-ID
  lookup whether the header is there or not.
\<close>

definition process_email_try ::
  "world \<Rightarrow> message \<Rightarrow> string \<Rightarrow> string list \<Rightarrow> pstate \<Rightarrow>
   (exc + Email) \<times> Email option \<times> pstate" where
  "process_email_try w msg sender' recipients' st =
     (let subject' = strip (msg_get msg ''Subject'' ''No Subject'');
          message_id' = msg_get msg ''Message-ID'' (generate_id w (ids_drawn st));
          in_reply_to' = get_header (headers msg) ''In-Reply-To'';
          references' = msg_get msg ''References'' ''''
      in case extract_email_content w msg (Suc (ids_drawn st)) of
           Inl e \<Rightarrow> (Inl e, None, st\<lparr>ids_drawn := Suc (ids_drawn st)\<rparr>)
         | Inr (body', content_type', attachments, n) \<Rightarrow>
             (let email_type' = determine_email_type subject' body' sender' recipients';
                  email_data =
                    \<lparr>ident = '''', message_id = message_id',
                     in_reply_to = in_reply_to', references = references',
                     sender = sender', recipients = join '','' recipients',
                     subject = subject', body = body', content_type = content_type',
                     status = RECEIVED, email_type = email_type',
                     metadata =
                       [(''headers'', MDict (dict (headers msg))),
                        (''source_ip'', MStr ''localhost'')],
                     error = None, processed_at = None, sent_at = None\<rparr>
              in case save_email w email_data (st\<lparr>ids_drawn := n\<rparr>) of
                   (Inl e, st1) \<Rightarrow> (Inl e, None, st1)
                 | (Inr db_email, st1) \<Rightarrow>
                     (case (if attachments \<noteq> []
                            then process_attachments w (ident db_email) attachments st1
                            else (None, st1)) of
                        (Some e, st2) \<Rightarrow> (Inl e, Some db_email, st2)
                      | (None, st2) \<Rightarrow>
                          (case route_email w db_email email_type' body' st2 of
                             (Some e, db_email', st3) \<Rightarrow> (Inl e, Some db_email', st3)
                           | (None, db_email', st3) \<Rightarrow> (Inr db_email', Some db_email', st3)))))"

text \<open>
  \<open>process_email\<close>: the \<open>try\<close> block and its \<open>except Exception\<close> handler. The result is the
  value returned, the \<open>Email\<close> object as the call leaves it (\<open>None\<close> when none was
  created), and the state.
\<close>

definition process_email ::
  "world \<Rightarrow> message \<Rightarrow> string \<Rightarrow> string list \<Rightarrow> pstate \<Rightarrow>
   Email option \<times> Email option \<times> pstate" where
  "process_email w msg sender' recipients' st =
     (case process_email_try w msg sender' recipients' st of
        (Inr db_email, obj, st1) \<Rightarrow> (Some db_email, obj, st1)
      | (Inl e, obj, st1) \<Rightarrow>
          (let st2 = log_error (''Error processing email: '' @ e) st1
           in case obj of
                None \<Rightarrow> (None, None, st2)
              | Some db_email \<Rightarrow>
                  (let db_email' = db_email\<lparr>status := FAILED, error := Some e\<rparr>
                   in case error_commit_raises w of
                        None \<Rightarrow> (None, Some db_email', st2\<lparr>committed := Some db_email'\<rparr>)
                      | Some e2 \<Rightarrow>
                          (None, Some db_email',
                           log_error (''Error updating email status: '' @ e2) st2))))"

section \<open>Mail listener: \<open>handle_RCPT\<close> and \<open>handle_DATA\<close>\<close>

record envelope =
  mail_from :: string
  rcpt_tos :: "string list"
  original_content :: string

text \<open>The first argument is \<open>settings.EMAIL_DOMAIN\<close>.\<close>

definition handle_RCPT :: "string \<Rightarrow> envelope \<Rightarrow> string \<Rightarrow> string \<times> envelope" where
  "handle_RCPT EMAIL_DOMAIN envelope address =
     (if \<not> endswith address (''@'' @ EMAIL_DOMAIN)
      then (''550 Not relaying to that domain'', envelope)
      else (''250 OK'', envelope\<lparr>rcpt_tos := rcpt_tos envelope @ [address]\<rparr>))"

text \<open>The server calls the hook once for every RCPT command of a session, with the
  session's envelope; the replies are collected in order.\<close>

fun rcpt_commands :: "string \<Rightarrow> envelope \<Rightarrow> string list \<Rightarrow> string list \<times> envelope" where
  "rcpt_commands EMAIL_DOMAIN envelope [] = ([], envelope)"
| "rcpt_commands EMAIL_DOMAIN envelope (address # rest) =
     (let (reply, envelope1) = handle_RCPT EMAIL_DOMAIN envelope address;
          (replies, envelope2) = rcpt_commands EMAIL_DOMAIN envelope1 rest
      in (reply # replies, envelope2))"


section \<open>Concrete messages and collaborators\<close>

text \<open>The infrastructure request of the tests, a world in which no collaborator raises,
  and worlds in which one of them does.\<close>

definition infra_request_message :: message where
  "infra_request_message =
     Leaf [(''From'', ''Test User <test@example.com>''), (''To'', ''infra@example.com''),
           (''Subject'', ''[Infra Request] Need new server''),
           (''Message-ID'', ''<test-message-id@example.com>'')]
       ''text/plain'' None
       ''Please provision a new server'' (Some ''Please provision a new server'')"

definition quiet_world :: world where
  "quiet_world =
     \<lparr>generate_id = (\<lambda>n. ''generated''), html_converter_handle = (\<lambda>h. h), utcnow = 2,
      new_email_id = ''email-1'',
      save_commit_raises = None, save_refresh_raises = None,
      attachments_commit_raises = None, route_commit_raises = None,
      error_commit_raises = None,
      create_infrastructure_request =
        (\<lambda>d u. Inr [(''id'', ''req_123''), (''status'', ''received'')]),
      confirmation_template_raises = None, unsubscribe_template_raises = None,
      message_from_bytes = (\<lambda>b. Inr infra_request_message),
      async_session_raises = None\<rparr>"

definition api_down_world :: world where
  "api_down_world =
     quiet_world\<lparr>create_infrastructure_request := (\<lambda>d u. Inl ''Connection refused'')\<rparr>"

definition silent_timeout_world :: world where
  "silent_timeout_world = quiet_world\<lparr>create_infrastructure_request := (\<lambda>d u. Inl '''')\<rparr>"

definition template_down_world :: world where
  "template_down_world =
     quiet_world\<lparr>confirmation_template_raises := Some ''Template not found''\<rparr>"

definition store_down_world :: world where
  "store_down_world = quiet_world\<lparr>save_commit_raises := Some ''Database error''\<rparr>"

definition initial_state :: pstate where
  "initial_state = \<lparr>committed = None, attachment_rows = [], events = [], ids_drawn = 0\<rparr>"

definition infra_request_email :: Email where
  "infra_request_email =
     \<lparr>ident = ''email-1'', message_id = ''<test-message-id@example.com>'', in_reply_to = None,
      references = '''', sender = ''test@example.com'', recipients = ''infra@example.com'',
      subject = ''[Infra Request] Need new server'', body = ''Please provision a new server'',
      content_type = ''text/plain'', status = RECEIVED, email_type = INFRA_REQUEST,
      metadata = [(''source_ip'', MStr ''localhost'')], error = None, processed_at = None,
      sent_at = None\<rparr>"

definition processed_email :: Email where
  "processed_email = infra_request_email\<lparr>status := PROCESSED, processed_at := Some 1\<rparr>"

definition infra_request_envelope :: envelope where
  "infra_request_envelope =
     \<lparr>mail_from = ''test@example.com'', rcpt_tos = [''infra@example.com''],
      original_content = ''Subject: [Infra Request] Need new server''\<rparr>"

text \<open>A plain message without a Subject header, and a world in which the commit that
  ends routing raises.\<close>

definition no_subject_message :: message where
  "no_subject_message =
     Leaf [(''From'', ''Test User <test@example.com>''), (''To'', ''recipient@example.com'')]
       ''text/plain'' None
       ''This is a test email body'' (Some ''This is a test email body'')"

definition commit_down_world :: world where
  "commit_down_world = quiet_world\<lparr>route_commit_raises := Some ''Connection lost''\<rparr>"

text \<open>A world in which the store goes away once the record is saved: the commit that ends
  routing raises, and so does the commit of the error state.\<close>

definition outage_world :: world where
  "outage_world =
     quiet_world\<lparr>route_commit_raises := Some ''Connection lost'',
                  error_commit_raises := Some ''Connection lost''\<rparr>"

section \<open>The rules as the specification words them\<close>

text \<open>Case-insensitive substring search: the phrase, lowered, is a contiguous block of
  the text, lowered.\<close>

definition contains_ci :: "string \<Rightarrow> string \<Rightarrow> bool" where
  "contains_ci text phrase = sublist (lower phrase) (lower text)"

definition spec_category :: "string \<Rightarrow> string \<Rightarrow> EmailType" where
  "spec_category subj bdy =
     (if \<exists>p \<in> set auto_reply_indicators. contains_ci subj p \<or> contains_ci bdy p
      then AUTO_REPLY
      else if \<exists>p \<in> {''delivery failed'', ''undeliverable'', ''returned mail''}.
                contains_ci subj p
      then BOUNCE
      else if contains_ci bdy ''unsubscribe'' \<or> contains_ci bdy ''opt-out''
      then UNSUBSCRIBE
      else if contains_ci subj ''infra request'' \<or>
              contains_ci subj ''infrastructure request''
      then INFRA_REQUEST
      else STANDARD)"

definition spec_priority :: "string \<Rightarrow> string \<Rightarrow> string" where
  "spec_priority subj bdy =
     (if \<exists>p \<in> {''urgent'', ''asap'', ''high priority'', ''blocking''}.
           contains_ci subj p \<or> contains_ci bdy p
      then ''high''
      else if \<exists>p \<in> {''low priority'', ''when you can'', ''not urgent''}.
                contains_ci subj p \<or> contains_ci bdy p
      then ''low''
      else ''normal'')"

definition spec_environment :: "string \<Rightarrow> string \<Rightarrow> string" where
  "spec_environment subj bdy =
     (if \<exists>p \<in> {''prod'', ''production'', ''live''}.
           contains_ci subj p \<or> contains_ci bdy p
      then ''production''
      else if \<exists>p \<in> {''staging'', ''pre-prod'', ''preprod''}.
                contains_ci subj p \<or> contains_ci bdy p
      then ''staging''
      else ''development'')"

section \<open>Facts about strings\<close>

lemma contains_sublist: "contains s t = sublist t s"
  by (induction s) (auto simp: sublist_Cons_right)

lemma auto_reply_loop_ex:
  "auto_reply_loop ps s b = (\<exists>p \<in> set ps. contains s p \<or> contains b p)"
  by (induction ps) auto

section \<open>The classifier\<close>

lemma lower_phrases:
  "list_all (\<lambda>p. lower p = p)
     (auto_reply_indicators @
      [''delivery failed'', ''undeliverable'', ''returned mail'', ''unsubscribe'', ''opt-out'',
       ''infra request'', ''infrastructure request''] @
      concat (map snd priority_terms) @ concat (map snd env_terms))"
  by (simp add: auto_reply_indicators_def priority_terms_def env_terms_def
      lower_def lower_char_def)

lemma contains_ci_lowered: "lower p = p \<Longrightarrow> contains_ci s p = contains (lower s) p"
  by (simp add: contains_ci_def contains_sublist)

lemma determine_email_type_spec:
  "determine_email_type subj bdy sndr rcpts = spec_category subj bdy"
  using lower_phrases
  by (simp add: determine_email_type_def spec_category_def contains_ci_lowered
      auto_reply_loop_ex auto_reply_indicators_def priority_terms_def env_terms_def)

lemma out_of_office_subject:
  "auto_reply_loop auto_reply_indicators (lower ''Auto: Out of Office'') b"
  by (simp add: auto_reply_indicators_def lower_def lower_char_def)

text \<open>
  C1. The classifier is a function of (subject, body, sender, recipients) into
  \<open>EmailType\<close>, and its value is the one the ordered rules give: AUTO_REPLY when the
  subject or the body contains an auto-reply phrase, else BOUNCE when the subject contains
  a delivery-failure phrase, else UNSUBSCRIBE when the body contains "unsubscribe" or
  "opt-out", else INFRA_REQUEST when the subject contains "infra request" or
  "infrastructure request", else STANDARD, all matches being case-insensitive substring
  matches. It never yields OUTGOING, and the subject "Auto: Out of Office" is AUTO_REPLY
  with any body.
\<close>

theorem classifier_ordered_rules:
  "determine_email_type subj bdy sndr rcpts = spec_category subj bdy \<and>
   determine_email_type subj bdy sndr rcpts \<noteq> OUTGOING \<and>
   determine_email_type ''Auto: Out of Office'' bdy sndr rcpts = AUTO_REPLY"
proof -
  have 1: "determine_email_type subj bdy sndr rcpts = spec_category subj bdy"
    by (rule determine_email_type_spec)
  have 2: "determine_email_type subj bdy sndr rcpts \<noteq> OUTGOING"
    by (simp add: determine_email_type_def Let_def)
  have 3: "determine_email_type ''Auto: Out of Office'' bdy sndr rcpts = AUTO_REPLY"
    using out_of_office_subject [of "lower bdy"]
    by (simp add: determine_email_type_def)
  from 1 2 3 show ?thesis by blast
qed

section \<open>The request parser\<close>

lemma parse_infra_request_priority:
  "priority (parse_infra_request subj bdy sndr) = spec_priority subj bdy"
  using lower_phrases
  by (simp add: parse_infra_request_def spec_priority_def priority_terms_def
      env_terms_def auto_reply_indicators_def contains_ci_lowered Let_def)

lemma parse_infra_request_environment:
  "environment (parse_infra_request subj bdy sndr) = spec_environment subj bdy"
  using lower_phrases
  by (simp add: parse_infra_request_def spec_environment_def priority_terms_def
      env_terms_def auto_reply_indicators_def contains_ci_lowered Let_def)

lemma parse_infra_request_verbatim:
  "title (parse_infra_request subj bdy sndr) = subj \<and>
   description (parse_infra_request subj bdy sndr) = bdy \<and>
   requestor_email (parse_infra_request subj bdy sndr) = sndr"
  by (simp add: parse_infra_request_def Let_def split: option.splits)

lemma urgent_production_subject:
  "first_bucket priority_terms ''[URGENT] Need production database'' bdy = Some ''high'' \<and>
   first_bucket env_terms ''[URGENT] Need production database'' bdy = Some ''production''"
  by (simp add: priority_terms_def env_terms_def lower_def lower_char_def)

text \<open>
  C7. The request parser returns the subject as title, the body as description and the
  sender as requestor, all verbatim; the priority is "high" when subject or body contains
  one of "urgent", "asap", "high priority", "blocking", else "low" when one of
  "low priority", "when you can", "not urgent", else "normal"; the environment is
  "production" when subject or body contains one of "prod", "production", "live", else
  "staging" when one of "staging", "pre-prod", "preprod", else "development"; matching is
  case-insensitive substring search. The subject "[URGENT] Need production database"
  gives priority "high" and environment "production" with any body.
\<close>

theorem request_parser_fields:
  "title (parse_infra_request subj bdy sndr) = subj \<and>
   description (parse_infra_request subj bdy sndr) = bdy \<and>
   requestor_email (parse_infra_request subj bdy sndr) = sndr \<and>
   priority (parse_infra_request subj bdy sndr) = spec_priority subj bdy \<and>
   environment (parse_infra_request subj bdy sndr) = spec_environment subj bdy \<and>
   priority (parse_infra_request ''[URGENT] Need production database'' bdy sndr) = ''high'' \<and>
   environment (parse_infra_request ''[URGENT] Need production database'' bdy sndr)
     = ''production''"
proof -
  have ex: "priority (parse_infra_request ''[URGENT] Need production database'' bdy sndr)
              = ''high'' \<and>
            environment (parse_infra_request ''[URGENT] Need production database'' bdy sndr)
              = ''production''"
    using urgent_production_subject [of bdy]
    by (simp add: parse_infra_request_def Let_def)
  with parse_infra_request_verbatim [of subj bdy sndr]
    parse_infra_request_priority [of subj bdy sndr]
    parse_infra_request_environment [of subj bdy sndr]
  show ?thesis by simp
qed

section \<open>The extractor\<close>

text \<open>The content type the loop ends with is the content type of the last part walked,
  whichever part gave the bdy.\<close>

lemma extract_loop_content_type:
  "extract_loop w ps (bdy, ct, atts, n) = Inr (body', ct', atts', n') \<Longrightarrow> ps \<noteq> [] \<Longrightarrow>
   ct' = get_content_type (last ps)"
proof (induction ps arbitrary: bdy ct atts n)
  case Nil
  then show ?case by simp
next
  case (Cons p ps)
  show ?case
  proof (cases "ps = []")
    case True
    with Cons.prems show ?thesis
      by (auto simp: Let_def split: if_splits option.splits prod.splits)
  next
    case False
    with Cons.prems Cons.IH show ?thesis
      by (auto simp: Let_def split: if_splits option.splits prod.splits)
  qed
qed

text \<open>
  C2. On the multipart message of the test fixture, a plain-text part followed by an
  HTML part, the extracted body is the plain-text part's content, and the content type
  returned is "text/html", the type of the last part walked, not "text/plain", the type
  of the part the body came from.
\<close>

theorem extract_multipart_content_type:
  "extract_email_content w multipart_email_message n =
     Inr (''This is the plain text version'', ''text/html'', [], n)"
  by (simp add: extract_email_content_def multipart_email_message_def msg_get_def
      get_content_maintype_def lower_def lower_char_def)

section \<open>Routing\<close>

lemma route_email_facts:
  "route_email w email t b st = (raised, email', st') \<Longrightarrow>
   raised = route_commit_raises w \<and>
   (status email' = PROCESSED \<or> status email' = FAILED) \<and>
   processed_at email' = Some (utcnow w) \<and>
   subject email' = subject email \<and> recipients email' = recipients email \<and>
   committed st' = (if route_commit_raises w = None then Some email' else committed st)"
  by (auto simp: route_email_def handle_infra_request_def handle_unsubscribe_def
      handle_standard_email_def send_confirmation_email_def send_unsubscribe_confirmation_def
      log_error_def Let_def split: option.splits sum.splits if_splits prod.splits)

lemma route_email_infra_failure:
  "create_infrastructure_request w (parse_infra_request (subject email) b (sender email))
     (sender email) = Inl e \<Longrightarrow>
   route_email w email INFRA_REQUEST b st = (raised, email', st') \<Longrightarrow>
   email' = email\<lparr>status := FAILED, error := Some e, processed_at := Some (utcnow w)\<rparr> \<and>
   filter is_template_request (events st') = filter is_template_request (events st)"
  by (auto simp: route_email_def handle_infra_request_def log_error_def Let_def
      split: option.splits)

lemma route_email_infra_success:
  "create_infrastructure_request w (parse_infra_request (subject email) b (sender email))
     (sender email) = Inr response \<Longrightarrow>
   route_email w email INFRA_REQUEST b st = (raised, email', st') \<Longrightarrow>
   status email' = PROCESSED \<and> error email' = error email \<and>
   (\<forall>e2. confirmation_template_raises w = Some e2 \<longrightarrow>
      LogError (''Error sending confirmation email: '' @ e2) \<in> set (events st'))"
  by (auto simp: route_email_def handle_infra_request_def send_confirmation_email_def
      log_error_def Let_def split: option.splits)

lemma route_email_api_requests:
  "route_email w email INFRA_REQUEST b st = (raised, email', st') \<Longrightarrow>
   length (filter is_api_request (events st')) = Suc (length (filter is_api_request (events st)))"
  by (auto simp: route_email_def handle_infra_request_def send_confirmation_email_def
      log_error_def Let_def split: option.splits sum.splits)

text \<open>
  C3. As stated the claim fails: what the confirmation step raises is caught and logged
  inside that step, and the record ends PROCESSED. Amended: for an INFRA_REQUEST record,
  when the call to the infrastructure API raises, the exception is caught by the routing
  handler, the status becomes FAILED and the error is the exception text; when the call
  returns, the status becomes PROCESSED and the error is left as it was, also when the
  confirmation step raises, which is then logged; the API is called exactly once, so
  nothing is retried.
\<close>

theorem infra_request_exception_handling:
  "(case route_email w email INFRA_REQUEST b st of
      (raised, email', st') \<Rightarrow>
        (\<forall>e. create_infrastructure_request w
                (parse_infra_request (subject email) b (sender email)) (sender email) = Inl e \<longrightarrow>
             status email' = FAILED \<and> error email' = Some e) \<and>
        (\<forall>response. create_infrastructure_request w
                (parse_infra_request (subject email) b (sender email)) (sender email)
                  = Inr response \<longrightarrow>
             status email' = PROCESSED \<and> error email' = error email \<and>
             (\<forall>e2. confirmation_template_raises w = Some e2 \<longrightarrow>
                LogError (''Error sending confirmation email: '' @ e2) \<in> set (events st'))) \<and>
        length (filter is_api_request (events st')) =
          Suc (length (filter is_api_request (events st))))"
proof (cases "route_email w email INFRA_REQUEST b st")
  case (fields raised email' st')
  have 1: "\<forall>e. create_infrastructure_request w
                (parse_infra_request (subject email) b (sender email)) (sender email) = Inl e \<longrightarrow>
             status email' = FAILED \<and> error email' = Some e"
    using route_email_infra_failure [OF _ fields] by auto
  have 2: "\<forall>response. create_infrastructure_request w
                (parse_infra_request (subject email) b (sender email)) (sender email)
                  = Inr response \<longrightarrow>
             status email' = PROCESSED \<and> error email' = error email \<and>
             (\<forall>e2. confirmation_template_raises w = Some e2 \<longrightarrow>
                LogError (''Error sending confirmation email: '' @ e2) \<in> set (events st'))"
    using route_email_infra_success [OF _ fields] by blast
  from 1 2 route_email_api_requests [OF fields] fields show ?thesis by simp
qed

theorem infra_request_exception_handling_witness:
  "create_infrastructure_request api_down_world
     (parse_infra_request (subject infra_request_email) ''Please provision a new server''
        (sender infra_request_email))
     (sender infra_request_email) = Inl ''Connection refused'' \<and>
   status (fst (snd (route_email api_down_world infra_request_email INFRA_REQUEST
     ''Please provision a new server'' initial_state))) = FAILED \<and>
   error (fst (snd (route_email api_down_world infra_request_email INFRA_REQUEST
     ''Please provision a new server'' initial_state))) = Some ''Connection refused'' \<and>
   create_infrastructure_request template_down_world
     (parse_infra_request (subject infra_request_email) ''Please provision a new server''
        (sender infra_request_email))
     (sender infra_request_email) = Inr [(''id'', ''req_123''), (''status'', ''received'')] \<and>
   confirmation_template_raises template_down_world = Some ''Template not found'' \<and>
   status (fst (snd (route_email template_down_world infra_request_email INFRA_REQUEST
     ''Please provision a new server'' initial_state))) = PROCESSED \<and>
   LogError ''Error sending confirmation email: Template not found''
     \<in> set (events (snd (snd (route_email template_down_world infra_request_email INFRA_REQUEST
          ''Please provision a new server'' initial_state))))"
  using infra_request_exception_handling [of api_down_world infra_request_email
      "''Please provision a new server''" initial_state]
    infra_request_exception_handling [of template_down_world infra_request_email
      "''Please provision a new server''" initial_state]
  by (simp add: case_prod_beta api_down_world_def template_down_world_def quiet_world_def)

theorem confirmation_failure_leaves_processed:
  "confirmation_template_raises template_down_world = Some ''Template not found'' \<and>
   fst (route_email template_down_world infra_request_email INFRA_REQUEST
     ''Please provision a new server'' initial_state) = None \<and>
   status (fst (snd (route_email template_down_world infra_request_email INFRA_REQUEST
     ''Please provision a new server'' initial_state))) = PROCESSED \<and>
   error (fst (snd (route_email template_down_world infra_request_email INFRA_REQUEST
     ''Please provision a new server'' initial_state))) = None"
  by (simp add: route_email_def handle_infra_request_def send_confirmation_email_def
      log_error_def Let_def template_down_world_def quiet_world_def infra_request_email_def)

text \<open>
  C4. As stated the claim fails where the exception has an empty text: the error field
  is then the empty string. Amended: for an INFRA_REQUEST record whose API call raises,
  the routing handler leaves the record with status FAILED and with the exception text as
  its error, and the template service is not asked for a confirmation.
\<close>

theorem api_failure_marks_failed:
  "create_infrastructure_request w (parse_infra_request (subject email) b (sender email))
     (sender email) = Inl e \<Longrightarrow>
   (case route_email w email INFRA_REQUEST b st of
      (raised, email', st') \<Rightarrow>
        status email' = FAILED \<and> error email' = Some e \<and>
        filter is_template_request (events st') = filter is_template_request (events st))"
proof -
  assume api: "create_infrastructure_request w
     (parse_infra_request (subject email) b (sender email)) (sender email) = Inl e"
  show ?thesis
  proof (cases "route_email w email INFRA_REQUEST b st")
    case (fields raised email' st')
    from route_email_infra_failure [OF api fields] fields show ?thesis by simp
  qed
qed

theorem api_failure_marks_failed_witness:
  "create_infrastructure_request api_down_world
     (parse_infra_request (subject infra_request_email) ''Please provision a new server''
        (sender infra_request_email))
     (sender infra_request_email) = Inl ''Connection refused'' \<and>
   status (fst (snd (route_email api_down_world infra_request_email INFRA_REQUEST
     ''Please provision a new server'' initial_state))) = FAILED \<and>
   error (fst (snd (route_email api_down_world infra_request_email INFRA_REQUEST
     ''Please provision a new server'' initial_state))) = Some ''Connection refused'' \<and>
   filter is_template_request (events (snd (snd (route_email api_down_world infra_request_email
     INFRA_REQUEST ''Please provision a new server'' initial_state)))) = []"
proof -
  have api: "create_infrastructure_request api_down_world
     (parse_infra_request (subject infra_request_email) ''Please provision a new server''
        (sender infra_request_email))
     (sender infra_request_email) = Inl ''Connection refused''"
    by (simp add: api_down_world_def quiet_world_def)
  from api api_failure_marks_failed [OF api, of initial_state] show ?thesis
    by (simp add: case_prod_beta initial_state_def)
qed

theorem api_failure_empty_error_text:
  "create_infrastructure_request silent_timeout_world
     (parse_infra_request (subject infra_request_email) ''Please provision a new server''
        (sender infra_request_email))
     (sender infra_request_email) = Inl '''' \<and>
   status (fst (snd (route_email silent_timeout_world infra_request_email INFRA_REQUEST
     ''Please provision a new server'' initial_state))) = FAILED \<and>
   error (fst (snd (route_email silent_timeout_world infra_request_email INFRA_REQUEST
     ''Please provision a new server'' initial_state))) = Some ''''"
  by (simp add: route_email_def handle_infra_request_def log_error_def Let_def
      silent_timeout_world_def quiet_world_def)

lemma route_email_terminal_status:
  "(case route_email w email t b st of
      (raised, email', st') \<Rightarrow>
        status email' \<noteq> RECEIVED \<and>
        (status email' = PROCESSED \<or> status email' = FAILED) \<and>
        processed_at email' = Some (utcnow w))"
proof (cases "route_email w email t b st")
  case (fields raised email' st')
  from route_email_facts [OF fields] fields show ?thesis by auto
qed

lemma update_email_status_keeps_processed_at:
  "processed_at db_email = Some t \<Longrightarrow>
   processed_at (update_email_status w db_email PROCESSED err) = Some t \<and>
   processed_at (update_email_status w db_email FAILED err) = Some t"
  by (simp add: update_email_status_def Let_def split: option.splits)

text \<open>
  C5. A record that is already PROCESSED, with processed timestamp 1, is given to the
  routing handler again at time 2. The status does not go back to RECEIVED, but the
  processed timestamp becomes 2: \<open>_route_email\<close> assigns it on every invocation, whereas
  the claim has it set only when it is not set yet. \<open>_update_email_status\<close>, the other
  place that moves a record to PROCESSED or FAILED, keeps the timestamp 1 on the same
  record.
\<close>

theorem processed_timestamp_overwritten:
  "status processed_email = PROCESSED \<and> processed_at processed_email = Some 1 \<and>
   utcnow quiet_world = 2 \<and>
   status (fst (snd (route_email quiet_world processed_email INFRA_REQUEST
     ''Please provision a new server'' initial_state))) = PROCESSED \<and>
   processed_at (fst (snd (route_email quiet_world processed_email INFRA_REQUEST
     ''Please provision a new server'' initial_state))) = Some 2 \<and>
   processed_at (update_email_status quiet_world processed_email PROCESSED None) = Some 1"
  by (simp add: route_email_def handle_infra_request_def send_confirmation_email_def
      update_email_status_def Let_def quiet_world_def processed_email_def)

section \<open>The whole call\<close>

text \<open>What \<open>process_email\<close> does at each stage that can raise.\<close>

lemma process_email_keeps:
  "process_email w msg s r st = (ret, obj, st') \<Longrightarrow> obj = Some x \<Longrightarrow>
   subject x = strip (msg_get msg ''Subject'' ''No Subject'') \<and> recipients x = join '','' r"
  by (auto simp: process_email_def process_email_try_def save_email_def process_attachments_def
      Let_def split: sum.splits prod.splits option.splits if_splits dest!: route_email_facts)

lemma process_email_returned:
  "process_email w msg s r st = (ret, obj, st') \<Longrightarrow> ret = Some x \<Longrightarrow> obj = Some x"
  by (auto simp: process_email_def process_email_try_def save_email_def process_attachments_def
      Let_def split: sum.splits prod.splits option.splits if_splits)

lemma process_email_committed:
  "process_email w msg s r st = (ret, obj, st') \<Longrightarrow> committed st' = Some x \<Longrightarrow>
   committed st = Some x \<or>
   subject x = strip (msg_get msg ''Subject'' ''No Subject'') \<and> recipients x = join '','' r"
  by (auto simp: process_email_def process_email_try_def save_email_def process_attachments_def
      log_error_def Let_def split: sum.splits prod.splits option.splits if_splits
      dest!: route_email_facts)

lemma process_email_extract_raises:
  "extract_email_content w msg (Suc (ids_drawn st)) = Inl e \<Longrightarrow>
   process_email w msg s r st = (ret, obj, st') \<Longrightarrow>
   ret = None \<and> obj = None \<and> committed st' = committed st"
  by (auto simp: process_email_def process_email_try_def log_error_def Let_def)

lemma process_email_save_commit_raises:
  "extract_email_content w msg (Suc (ids_drawn st)) = Inr (b, ct, atts, n) \<Longrightarrow>
   save_commit_raises w = Some e \<Longrightarrow>
   process_email w msg s r st = (ret, obj, st') \<Longrightarrow>
   ret = None \<and> obj = None \<and> committed st' = committed st"
  by (auto simp: process_email_def process_email_try_def save_email_def log_error_def Let_def)

lemma process_email_save_refresh_raises:
  "extract_email_content w msg (Suc (ids_drawn st)) = Inr (b, ct, atts, n) \<Longrightarrow>
   save_commit_raises w = None \<Longrightarrow> save_refresh_raises w = Some e \<Longrightarrow>
   process_email w msg s r st = (ret, obj, st') \<Longrightarrow>
   ret = None \<and> obj = None \<and>
   (\<exists>x. committed st' = Some x \<and> status x = RECEIVED \<and> error x = None)"
  by (auto simp: process_email_def process_email_try_def save_email_def log_error_def Let_def)

lemma process_email_attachments_raise:
  "extract_email_content w msg (Suc (ids_drawn st)) = Inr (b, ct, atts, n) \<Longrightarrow>
   save_commit_raises w = None \<Longrightarrow> save_refresh_raises w = None \<Longrightarrow>
   atts \<noteq> [] \<Longrightarrow> attachments_commit_raises w = Some e \<Longrightarrow>
   process_email w msg s r st = (ret, obj, st') \<Longrightarrow>
   ret = None \<and>
   (\<exists>x. obj = Some x \<and> status x = FAILED \<and> error x = Some e \<and>
        (error_commit_raises w = None \<longrightarrow> committed st' = Some x))"
  by (auto simp: process_email_def process_email_try_def save_email_def process_attachments_def
      Let_def split: option.splits)

lemma process_email_route_commit_raises:
  "extract_email_content w msg (Suc (ids_drawn st)) = Inr (b, ct, atts, n) \<Longrightarrow>
   save_commit_raises w = None \<Longrightarrow> save_refresh_raises w = None \<Longrightarrow>
   atts = [] \<or> attachments_commit_raises w = None \<Longrightarrow>
   route_commit_raises w = Some e \<Longrightarrow>
   process_email w msg s r st = (ret, obj, st') \<Longrightarrow>
   ret = None \<and>
   (\<exists>x. obj = Some x \<and> status x = FAILED \<and> error x = Some e \<and>
        (error_commit_raises w = None \<longrightarrow> committed st' = Some x))"
  by (auto simp: process_email_def process_email_try_def save_email_def process_attachments_def
      Let_def split: sum.splits prod.splits option.splits if_splits dest!: route_email_facts)

lemma process_email_outage:
  "extract_email_content w msg (Suc (ids_drawn st)) = Inr (b, ct, atts, n) \<Longrightarrow>
   save_commit_raises w = None \<Longrightarrow> save_refresh_raises w = None \<Longrightarrow>
   atts = [] \<or> attachments_commit_raises w = None \<Longrightarrow>
   route_commit_raises w = Some e \<Longrightarrow> error_commit_raises w = Some e2 \<Longrightarrow>
   process_email w msg s r st = (ret, obj, st') \<Longrightarrow>
   ret = None \<and> (\<exists>x. committed st' = Some x \<and> status x = RECEIVED \<and> error x = None)"
  by (auto simp: process_email_def process_email_try_def save_email_def process_attachments_def
      log_error_def Let_def split: sum.splits prod.splits option.splits if_splits
      dest!: route_email_facts)

lemma process_email_api_raises:
  "extract_email_content w msg (Suc (ids_drawn st)) = Inr (b, ct, atts, n) \<Longrightarrow>
   determine_email_type (strip (msg_get msg ''Subject'' ''No Subject'')) b s r = INFRA_REQUEST \<Longrightarrow>
   save_commit_raises w = None \<Longrightarrow> save_refresh_raises w = None \<Longrightarrow>
   atts = [] \<or> attachments_commit_raises w = None \<Longrightarrow>
   route_commit_raises w = None \<Longrightarrow>
   create_infrastructure_request w
     (parse_infra_request (strip (msg_get msg ''Subject'' ''No Subject'')) b s) s = Inl e \<Longrightarrow>
   process_email w msg s r st = (ret, obj, st') \<Longrightarrow>
   (\<exists>x. ret = Some x \<and> obj = Some x \<and> committed st' = Some x \<and>
        status x = FAILED \<and> error x = Some e)"
  by (cases "atts = []")
     (auto simp: process_email_def process_email_try_def save_email_def process_attachments_def
      route_email_def handle_infra_request_def log_error_def Let_def)

lemma process_email_try_raises:
  "process_email_try w msg s r st = (Inl e, loc, st1) \<Longrightarrow>
   process_email w msg s r st = (ret, obj, st') \<Longrightarrow>
   ret = None \<and>
   (case loc of
      None \<Rightarrow> obj = None
    | Some x \<Rightarrow> obj = Some (x\<lparr>status := FAILED, error := Some e\<rparr>))"
  by (auto simp: process_email_def Let_def split: option.splits)

lemma process_email_try_raises_committed:
  "process_email_try w msg s r st = (Inl e, Some x, st1) \<Longrightarrow> error_commit_raises w = None \<Longrightarrow>
   process_email w msg s r st = (ret, obj, st') \<Longrightarrow>
   committed st' = Some (x\<lparr>status := FAILED, error := Some e\<rparr>)"
  by (auto simp: process_email_def Let_def split: option.splits)

lemma process_email_try_raises_uncommitted:
  "process_email_try w msg s r st = (Inl e, Some x, st1) \<Longrightarrow>
   error_commit_raises w = Some e2 \<Longrightarrow>
   process_email w msg s r st = (ret, obj, st') \<Longrightarrow>
   committed st' = committed st1 \<and>
   LogError (''Error updating email status: '' @ e2) \<in> set (events st')"
  by (auto simp: process_email_def log_error_def Let_def split: option.splits)

lemma process_email_returns:
  "extract_email_content w msg (Suc (ids_drawn st)) = Inr (b, ct, atts, n) \<Longrightarrow>
   save_commit_raises w = None \<Longrightarrow> save_refresh_raises w = None \<Longrightarrow>
   atts = [] \<or> attachments_commit_raises w = None \<Longrightarrow>
   route_commit_raises w = None \<Longrightarrow>
   process_email w msg s r st = (ret, obj, st') \<Longrightarrow>
   \<exists>x. ret = Some x \<and> obj = Some x \<and> committed st' = Some x"
  by (auto simp: process_email_def process_email_try_def save_email_def process_attachments_def
      Let_def split: sum.splits prod.splits option.splits if_splits dest!: route_email_facts)

lemma infra_request_message_facts:
  "extract_email_content w infra_request_message n =
     Inr (''Please provision a new server'', ''text/plain'', [], n) \<and>
   strip (msg_get infra_request_message ''Subject'' ''No Subject'')
     = ''[Infra Request] Need new server'' \<and>
   determine_email_type ''[Infra Request] Need new server'' ''Please provision a new server''
     s r = INFRA_REQUEST"
  by (simp add: extract_email_content_def infra_request_message_def msg_get_def strip_def
      is_space_def determine_email_type_def auto_reply_indicators_def lower_def lower_char_def)

section \<open>The listener\<close>






lemma endswith_suffix: "endswith s t = suffix t s"
  by (simp add: endswith_def suffix_to_prefix)

lemma rcpt_commands_eq:
  "rcpt_commands d env addrs =
     (map (\<lambda>a. if suffix (''@'' @ d) a then ''250 OK'' else ''550 Not relaying to that domain'')
        addrs,
      env\<lparr>rcpt_tos := rcpt_tos env @ filter (\<lambda>a. suffix (''@'' @ d) a) addrs\<rparr>)"
  by (induction addrs arbitrary: env) (auto simp: handle_RCPT_def endswith_suffix)

text \<open>
  C8. A proposed recipient is accepted, with reply 250, exactly when it ends with "@"
  followed by the configured domain, and is then appended to the envelope's recipients;
  any other recipient gets the permanent-failure reply 550 and leaves the envelope as it
  was. The hook works on the envelope alone, so nothing is stored at this step. Over the
  RCPT commands of a session each address gets its own reply and the envelope collects
  exactly the accepted ones, in order, whatever was rejected before; a record created
  when the message is then submitted lists these accepted recipients only.
\<close>

theorem recipient_validation:
  "(fst (handle_RCPT d env a) = ''250 OK'' \<longleftrightarrow> suffix (''@'' @ d) a) \<and>
   (suffix (''@'' @ d) a \<longrightarrow>
      handle_RCPT d env a = (''250 OK'', env\<lparr>rcpt_tos := rcpt_tos env @ [a]\<rparr>)) \<and>
   (\<not> suffix (''@'' @ d) a \<longrightarrow>
      handle_RCPT d env a = (''550 Not relaying to that domain'', env)) \<and>
   rcpt_commands d env addrs =
     (map (\<lambda>a. if suffix (''@'' @ d) a then ''250 OK'' else ''550 Not relaying to that domain'')
        addrs,
      env\<lparr>rcpt_tos := rcpt_tos env @ filter (\<lambda>a. suffix (''@'' @ d) a) addrs\<rparr>) \<and>
   (\<forall>x. fst (snd (process_email w msg (mail_from env)
                    (rcpt_tos (snd (rcpt_commands d (env\<lparr>rcpt_tos := []\<rparr>) addrs))) st)) = Some x
        \<longrightarrow> recipients x = join '','' (filter (\<lambda>a. suffix (''@'' @ d) a) addrs))"
proof -
  have 1: "(fst (handle_RCPT d env a) = ''250 OK'' \<longleftrightarrow> suffix (''@'' @ d) a) \<and>
   (suffix (''@'' @ d) a \<longrightarrow>
      handle_RCPT d env a = (''250 OK'', env\<lparr>rcpt_tos := rcpt_tos env @ [a]\<rparr>)) \<and>
   (\<not> suffix (''@'' @ d) a \<longrightarrow>
      handle_RCPT d env a = (''550 Not relaying to that domain'', env))"
    by (simp add: handle_RCPT_def endswith_suffix)
  have 2: "\<forall>x. fst (snd (process_email w msg (mail_from env)
                    (rcpt_tos (snd (rcpt_commands d (env\<lparr>rcpt_tos := []\<rparr>) addrs))) st)) = Some x
        \<longrightarrow> recipients x = join '','' (filter (\<lambda>a. suffix (''@'' @ d) a) addrs)"
  proof (intro allI impI)
    fix x
    let ?r = "rcpt_tos (snd (rcpt_commands d (env\<lparr>rcpt_tos := []\<rparr>) addrs))"
    assume a: "fst (snd (process_email w msg (mail_from env) ?r st)) = Some x"
    obtain ret obj st' where p: "process_email w msg (mail_from env) ?r st = (ret, obj, st')"
      by (cases "process_email w msg (mail_from env) ?r st") auto
    with a have "obj = Some x" by simp
    from process_email_keeps [OF p this] show
      "recipients x = join '','' (filter (\<lambda>a. suffix (''@'' @ d) a) addrs)"
      by (simp add: rcpt_commands_eq)
  qed
  from 1 2 rcpt_commands_eq [of d env addrs] show ?thesis by blast
qed

theorem recipient_validation_witness:
  "suffix (''@'' @ ''example.com'') ''infra@example.com'' \<and>
   \<not> suffix (''@'' @ ''example.com'') ''someone@elsewhere.org'' \<and>
   handle_RCPT ''example.com'' (infra_request_envelope\<lparr>rcpt_tos := []\<rparr>) ''infra@example.com''
     = (''250 OK'', infra_request_envelope\<lparr>rcpt_tos := [''infra@example.com'']\<rparr>) \<and>
   handle_RCPT ''example.com'' infra_request_envelope ''someone@elsewhere.org''
     = (''550 Not relaying to that domain'', infra_request_envelope) \<and>
   fst (rcpt_commands ''example.com'' (infra_request_envelope\<lparr>rcpt_tos := []\<rparr>)
          [''someone@elsewhere.org'', ''infra@example.com''])
     = [''550 Not relaying to that domain'', ''250 OK'']"
proof -
  have s: "suffix (''@'' @ ''example.com'') ''infra@example.com''"
    "\<not> suffix (''@'' @ ''example.com'') ''someone@elsewhere.org''"
    by (simp_all add: suffix_to_prefix)
  from s
    recipient_validation [of "''example.com''" "infra_request_envelope\<lparr>rcpt_tos := []\<rparr>"
      "''infra@example.com''" "[''someone@elsewhere.org'', ''infra@example.com'']"]
    recipient_validation [of "''example.com''" infra_request_envelope
      "''someone@elsewhere.org''" "[]"]
  show ?thesis by simp
qed

section \<open>Graceful degradation and the stored subject\<close>

text \<open>
  C9. As stated the claim fails: the error state is written by a commit of its own, and
  when that commit raises as well the exception is logged and the stored record stays as
  the last successful commit left it, RECEIVED, not FAILED. Amended: \<open>process_email\<close>
  always returns; whenever the body of its \<open>try\<close> raises it returns no record, and the
  record object, if the save had returned one, is marked FAILED with the text of the
  exception; that state is stored when the commit of the error state succeeds, and when
  that commit raises the failure is logged and the stored record keeps the state of the
  last successful commit. Stage by stage: when extraction raises or the commit that
  creates the record raises, no record exists and none is returned; when committing the
  attachments or the commit that ends routing raises, the record is marked FAILED with
  that exception's text; when the handler of an infrastructure request raises and the
  commit that ends routing succeeds, the record is returned and stored FAILED with that
  text.
\<close>

theorem process_email_degrades_gracefully:
  "(case process_email w msg s r st of
      (ret, obj, st') \<Rightarrow>
        (\<forall>e loc st1. process_email_try w msg s r st = (Inl e, loc, st1) \<longrightarrow>
           ret = None \<and>
           (loc = None \<longrightarrow> obj = None) \<and>
           (\<forall>x. loc = Some x \<longrightarrow>
              obj = Some (x\<lparr>status := FAILED, error := Some e\<rparr>) \<and>
              (error_commit_raises w = None \<longrightarrow>
                 committed st' = Some (x\<lparr>status := FAILED, error := Some e\<rparr>)) \<and>
              (\<forall>e2. error_commit_raises w = Some e2 \<longrightarrow>
                 committed st' = committed st1 \<and>
                 LogError (''Error updating email status: '' @ e2) \<in> set (events st')))) \<and>
        (\<forall>e. extract_email_content w msg (Suc (ids_drawn st)) = Inl e \<longrightarrow>
           ret = None \<and> obj = None \<and> committed st' = committed st) \<and>
        (\<forall>b ct atts n.
           extract_email_content w msg (Suc (ids_drawn st)) = Inr (b, ct, atts, n) \<longrightarrow>
           (\<forall>e. save_commit_raises w = Some e \<longrightarrow>
              ret = None \<and> obj = None \<and> committed st' = committed st) \<and>
           (\<forall>e. save_commit_raises w = None \<and> save_refresh_raises w = None \<and>
                atts \<noteq> [] \<and> attachments_commit_raises w = Some e \<longrightarrow>
              ret = None \<and>
              (\<exists>x. obj = Some x \<and> status x = FAILED \<and> error x = Some e \<and>
                   (error_commit_raises w = None \<longrightarrow> committed st' = Some x))) \<and>
           (\<forall>e. save_commit_raises w = None \<and> save_refresh_raises w = None \<and>
                (atts = [] \<or> attachments_commit_raises w = None) \<and>
                route_commit_raises w = Some e \<longrightarrow>
              ret = None \<and>
              (\<exists>x. obj = Some x \<and> status x = FAILED \<and> error x = Some e \<and>
                   (error_commit_raises w = None \<longrightarrow> committed st' = Some x))) \<and>
           (\<forall>e. save_commit_raises w = None \<and> save_refresh_raises w = None \<and>
                (atts = [] \<or> attachments_commit_raises w = None) \<and>
                route_commit_raises w = None \<and>
                determine_email_type (strip (msg_get msg ''Subject'' ''No Subject'')) b s r
                  = INFRA_REQUEST \<and>
                create_infrastructure_request w
                  (parse_infra_request (strip (msg_get msg ''Subject'' ''No Subject'')) b s) s
                  = Inl e \<longrightarrow>
              (\<exists>x. ret = Some x \<and> obj = Some x \<and> committed st' = Some x \<and>
                   status x = FAILED \<and> error x = Some e))))"
proof (cases "process_email w msg s r st")
  case (fields ret obj st')
  have 1: "\<forall>e loc st1. process_email_try w msg s r st = (Inl e, loc, st1) \<longrightarrow>
           ret = None \<and>
           (loc = None \<longrightarrow> obj = None) \<and>
           (\<forall>x. loc = Some x \<longrightarrow>
              obj = Some (x\<lparr>status := FAILED, error := Some e\<rparr>) \<and>
              (error_commit_raises w = None \<longrightarrow>
                 committed st' = Some (x\<lparr>status := FAILED, error := Some e\<rparr>)) \<and>
              (\<forall>e2. error_commit_raises w = Some e2 \<longrightarrow>
                 committed st' = committed st1 \<and>
                 LogError (''Error updating email status: '' @ e2) \<in> set (events st')))"
  proof (intro allI impI conjI)
    fix e loc st1
    assume t: "process_email_try w msg s r st = (Inl e, loc, st1)"
    from process_email_try_raises [OF t fields] show "ret = None" by simp
    { assume "loc = None"
      with process_email_try_raises [OF t fields] show "obj = None" by simp }
    { fix x assume l: "loc = Some x"
      with process_email_try_raises [OF t fields]
      show "obj = Some (x\<lparr>status := FAILED, error := Some e\<rparr>)" by simp
      { assume "error_commit_raises w = None"
        from process_email_try_raises_committed [OF t [unfolded l] this fields]
        show "committed st' = Some (x\<lparr>status := FAILED, error := Some e\<rparr>)" . }
      { fix e2 assume c: "error_commit_raises w = Some e2"
        from process_email_try_raises_uncommitted [OF t [unfolded l] c fields]
        show "committed st' = committed st1"
          and "LogError (''Error updating email status: '' @ e2) \<in> set (events st')"
          by simp_all } }
  qed
  have 2: "\<forall>e. extract_email_content w msg (Suc (ids_drawn st)) = Inl e \<longrightarrow>
           ret = None \<and> obj = None \<and> committed st' = committed st"
  proof (intro allI impI)
    fix e
    assume "extract_email_content w msg (Suc (ids_drawn st)) = Inl e"
    from process_email_extract_raises [OF this fields]
    show "ret = None \<and> obj = None \<and> committed st' = committed st" .
  qed
  have 3: "\<forall>b ct atts n.
           extract_email_content w msg (Suc (ids_drawn st)) = Inr (b, ct, atts, n) \<longrightarrow>
           (\<forall>e. save_commit_raises w = Some e \<longrightarrow>
              ret = None \<and> obj = None \<and> committed st' = committed st) \<and>
           (\<forall>e. save_commit_raises w = None \<and> save_refresh_raises w = None \<and>
                atts \<noteq> [] \<and> attachments_commit_raises w = Some e \<longrightarrow>
              ret = None \<and>
              (\<exists>x. obj = Some x \<and> status x = FAILED \<and> error x = Some e \<and>
                   (error_commit_raises w = None \<longrightarrow> committed st' = Some x))) \<and>
           (\<forall>e. save_commit_raises w = None \<and> save_refresh_raises w = None \<and>
                (atts = [] \<or> attachments_commit_raises w = None) \<and>
                route_commit_raises w = Some e \<longrightarrow>
              ret = None \<and>
              (\<exists>x. obj = Some x \<and> status x = FAILED \<and> error x = Some e \<and>
                   (error_commit_raises w = None \<longrightarrow> committed st' = Some x))) \<and>
           (\<forall>e. save_commit_raises w = None \<and> save_refresh_raises w = None \<and>
                (atts = [] \<or> attachments_commit_raises w = None) \<and>
                route_commit_raises w = None \<and>
                determine_email_type (strip (msg_get msg ''Subject'' ''No Subject'')) b s r
                  = INFRA_REQUEST \<and>
                create_infrastructure_request w
                  (parse_infra_request (strip (msg_get msg ''Subject'' ''No Subject'')) b s) s
                  = Inl e \<longrightarrow>
              (\<exists>x. ret = Some x \<and> obj = Some x \<and> committed st' = Some x \<and>
                   status x = FAILED \<and> error x = Some e))"
  proof (intro allI impI)
    fix b ct atts n
    assume x: "extract_email_content w msg (Suc (ids_drawn st)) = Inr (b, ct, atts, n)"
    have a: "\<forall>e. save_commit_raises w = Some e \<longrightarrow>
              ret = None \<and> obj = None \<and> committed st' = committed st"
    proof (intro allI impI)
      fix e assume "save_commit_raises w = Some e"
      from process_email_save_commit_raises [OF x this fields]
      show "ret = None \<and> obj = None \<and> committed st' = committed st" .
    qed
    have b: "\<forall>e. save_commit_raises w = None \<and> save_refresh_raises w = None \<and>
                atts \<noteq> [] \<and> attachments_commit_raises w = Some e \<longrightarrow>
              ret = None \<and>
              (\<exists>x. obj = Some x \<and> status x = FAILED \<and> error x = Some e \<and>
                   (error_commit_raises w = None \<longrightarrow> committed st' = Some x))"
    proof (intro allI impI)
      fix e assume h: "save_commit_raises w = None \<and> save_refresh_raises w = None \<and>
                atts \<noteq> [] \<and> attachments_commit_raises w = Some e"
      then have h1: "save_commit_raises w = None" and h1': "save_refresh_raises w = None"
        and h2: "atts \<noteq> []" and h3: "attachments_commit_raises w = Some e" by simp_all
      from process_email_attachments_raise [OF x h1 h1' h2 h3 fields]
      show "ret = None \<and>
              (\<exists>x. obj = Some x \<and> status x = FAILED \<and> error x = Some e \<and>
                   (error_commit_raises w = None \<longrightarrow> committed st' = Some x))" .
    qed
    have c: "\<forall>e. save_commit_raises w = None \<and> save_refresh_raises w = None \<and>
                (atts = [] \<or> attachments_commit_raises w = None) \<and>
                route_commit_raises w = Some e \<longrightarrow>
              ret = None \<and>
              (\<exists>x. obj = Some x \<and> status x = FAILED \<and> error x = Some e \<and>
                   (error_commit_raises w = None \<longrightarrow> committed st' = Some x))"
    proof (intro allI impI)
      fix e assume h: "save_commit_raises w = None \<and> save_refresh_raises w = None \<and>
                (atts = [] \<or> attachments_commit_raises w = None) \<and>
                route_commit_raises w = Some e"
      then have h1: "save_commit_raises w = None" and h1': "save_refresh_raises w = None"
        and h2: "atts = [] \<or> attachments_commit_raises w = None"
        and h3: "route_commit_raises w = Some e" by simp_all
      from process_email_route_commit_raises [OF x h1 h1' h2 h3 fields]
      show "ret = None \<and>
              (\<exists>x. obj = Some x \<and> status x = FAILED \<and> error x = Some e \<and>
                   (error_commit_raises w = None \<longrightarrow> committed st' = Some x))" .
    qed
    have d: "\<forall>e. save_commit_raises w = None \<and> save_refresh_raises w = None \<and>
                (atts = [] \<or> attachments_commit_raises w = None) \<and>
                route_commit_raises w = None \<and>
                determine_email_type (strip (msg_get msg ''Subject'' ''No Subject'')) b s r
                  = INFRA_REQUEST \<and>
                create_infrastructure_request w
                  (parse_infra_request (strip (msg_get msg ''Subject'' ''No Subject'')) b s) s
                  = Inl e \<longrightarrow>
              (\<exists>x. ret = Some x \<and> obj = Some x \<and> committed st' = Some x \<and>
                   status x = FAILED \<and> error x = Some e)"
    proof (intro allI impI)
      fix e assume h: "save_commit_raises w = None \<and> save_refresh_raises w = None \<and>
                (atts = [] \<or> attachments_commit_raises w = None) \<and>
                route_commit_raises w = None \<and>
                determine_email_type (strip (msg_get msg ''Subject'' ''No Subject'')) b s r
                  = INFRA_REQUEST \<and>
                create_infrastructure_request w
                  (parse_infra_request (strip (msg_get msg ''Subject'' ''No Subject'')) b s) s
                  = Inl e"
      then have h1: "save_commit_raises w = None" and h1': "save_refresh_raises w = None"
        and h2: "atts = [] \<or> attachments_commit_raises w = None"
        and h3: "route_commit_raises w = None"
        and h4: "determine_email_type (strip (msg_get msg ''Subject'' ''No Subject'')) b s r
                  = INFRA_REQUEST"
        and h5: "create_infrastructure_request w
                  (parse_infra_request (strip (msg_get msg ''Subject'' ''No Subject'')) b s) s
                  = Inl e" by simp_all
      from process_email_api_raises [OF x h4 h1 h1' h2 h3 h5 fields]
      show "\<exists>x. ret = Some x \<and> obj = Some x \<and> committed st' = Some x \<and>
                   status x = FAILED \<and> error x = Some e" .
    qed
    from a b c d show "(\<forall>e. save_commit_raises w = Some e \<longrightarrow>
              ret = None \<and> obj = None \<and> committed st' = committed st) \<and>
           (\<forall>e. save_commit_raises w = None \<and> save_refresh_raises w = None \<and>
                atts \<noteq> [] \<and> attachments_commit_raises w = Some e \<longrightarrow>
              ret = None \<and>
              (\<exists>x. obj = Some x \<and> status x = FAILED \<and> error x = Some e \<and>
                   (error_commit_raises w = None \<longrightarrow> committed st' = Some x))) \<and>
           (\<forall>e. save_commit_raises w = None \<and> save_refresh_raises w = None \<and>
                (atts = [] \<or> attachments_commit_raises w = None) \<and>
                route_commit_raises w = Some e \<longrightarrow>
              ret = None \<and>
              (\<exists>x. obj = Some x \<and> status x = FAILED \<and> error x = Some e \<and>
                   (error_commit_raises w = None \<longrightarrow> committed st' = Some x))) \<and>
           (\<forall>e. save_commit_raises w = None \<and> save_refresh_raises w = None \<and>
                (atts = [] \<or> attachments_commit_raises w = None) \<and>
                route_commit_raises w = None \<and>
                determine_email_type (strip (msg_get msg ''Subject'' ''No Subject'')) b s r
                  = INFRA_REQUEST \<and>
                create_infrastructure_request w
                  (parse_infra_request (strip (msg_get msg ''Subject'' ''No Subject'')) b s) s
                  = Inl e \<longrightarrow>
              (\<exists>x. ret = Some x \<and> obj = Some x \<and> committed st' = Some x \<and>
                   status x = FAILED \<and> error x = Some e))"
      by (intro conjI)
  qed
  show ?thesis
    unfolding fields prod.case by (intro conjI 1 2 3)
qed

theorem process_email_degrades_gracefully_witness:
  "save_commit_raises store_down_world = Some ''Database error'' \<and>
   fst (process_email store_down_world infra_request_message ''test@example.com''
          [''infra@example.com''] initial_state) = None \<and>
   fst (snd (process_email store_down_world infra_request_message ''test@example.com''
          [''infra@example.com''] initial_state)) = None \<and>
   route_commit_raises commit_down_world = Some ''Connection lost'' \<and>
   error_commit_raises commit_down_world = None \<and>
   fst (process_email commit_down_world infra_request_message ''test@example.com''
          [''infra@example.com''] initial_state) = None \<and>
   (\<exists>x. committed (snd (snd (process_email commit_down_world infra_request_message
          ''test@example.com'' [''infra@example.com''] initial_state))) = Some x \<and>
        status x = FAILED \<and> error x = Some ''Connection lost'') \<and>
   (\<exists>x. fst (process_email api_down_world infra_request_message ''test@example.com''
          [''infra@example.com''] initial_state) = Some x \<and>
        status x = FAILED \<and> error x = Some ''Connection refused'')"
proof -
  have x: "\<And>w. extract_email_content w infra_request_message (Suc (ids_drawn initial_state))
       = Inr (''Please provision a new server'', ''text/plain'', [],
              Suc (ids_drawn initial_state))"
    using infra_request_message_facts by blast
  have t: "determine_email_type
       (strip (msg_get infra_request_message ''Subject'' ''No Subject''))
       ''Please provision a new server'' ''test@example.com'' [''infra@example.com'']
       = INFRA_REQUEST"
    by (simp add: infra_request_message_facts)
  have w1: "save_commit_raises store_down_world = Some ''Database error''"
    by (simp add: store_down_world_def quiet_world_def)
  have w2: "save_commit_raises commit_down_world = None"
    "save_refresh_raises commit_down_world = None"
    "route_commit_raises commit_down_world = Some ''Connection lost''"
    "error_commit_raises commit_down_world = None"
    by (simp_all add: commit_down_world_def quiet_world_def)
  have w3: "save_commit_raises api_down_world = None"
    "save_refresh_raises api_down_world = None"
    "route_commit_raises api_down_world = None"
    "create_infrastructure_request api_down_world
       (parse_infra_request (strip (msg_get infra_request_message ''Subject'' ''No Subject''))
          ''Please provision a new server'' ''test@example.com'') ''test@example.com''
       = Inl ''Connection refused''"
    by (simp_all add: api_down_world_def quiet_world_def)
  obtain r1 o1 s1 where p1:
    "process_email store_down_world infra_request_message ''test@example.com''
       [''infra@example.com''] initial_state = (r1, o1, s1)"
    by (cases "process_email store_down_world infra_request_message ''test@example.com''
       [''infra@example.com''] initial_state") auto
  obtain r2 o2 s2 where p2:
    "process_email commit_down_world infra_request_message ''test@example.com''
       [''infra@example.com''] initial_state = (r2, o2, s2)"
    by (cases "process_email commit_down_world infra_request_message ''test@example.com''
       [''infra@example.com''] initial_state") auto
  obtain r3 o3 s3 where p3:
    "process_email api_down_world infra_request_message ''test@example.com''
       [''infra@example.com''] initial_state = (r3, o3, s3)"
    by (cases "process_email api_down_world infra_request_message ''test@example.com''
       [''infra@example.com''] initial_state") auto
  have 1: "r1 = None \<and> o1 = None"
    using x [of store_down_world] w1
      process_email_degrades_gracefully [of store_down_world infra_request_message
        "''test@example.com''" "[''infra@example.com'']" initial_state, unfolded p1 prod.case]
    by auto
  have 2: "r2 = None \<and>
      (\<exists>x. committed s2 = Some x \<and> status x = FAILED \<and> error x = Some ''Connection lost'')"
    using x [of commit_down_world] w2
      process_email_degrades_gracefully [of commit_down_world infra_request_message
        "''test@example.com''" "[''infra@example.com'']" initial_state, unfolded p2 prod.case]
    by auto
  have 3: "\<exists>x. r3 = Some x \<and> status x = FAILED \<and> error x = Some ''Connection refused''"
    using x [of api_down_world] w3 t
      process_email_degrades_gracefully [of api_down_world infra_request_message
        "''test@example.com''" "[''infra@example.com'']" initial_state, unfolded p3 prod.case]
    by auto
  from 1 2 3 w1 w2 show ?thesis
    by (simp add: p1 p2 p3)
qed

theorem store_outage_leaves_received:
  "route_commit_raises outage_world = Some ''Connection lost'' \<and>
   error_commit_raises outage_world = Some ''Connection lost'' \<and>
   fst (process_email outage_world infra_request_message ''test@example.com''
          [''infra@example.com''] initial_state) = None \<and>
   (\<exists>x. committed (snd (snd (process_email outage_world infra_request_message
          ''test@example.com'' [''infra@example.com''] initial_state))) = Some x \<and>
        status x = RECEIVED \<and> error x = None)"
proof -
  have x: "extract_email_content outage_world infra_request_message
       (Suc (ids_drawn initial_state))
       = Inr (''Please provision a new server'', ''text/plain'', [],
              Suc (ids_drawn initial_state))"
    using infra_request_message_facts by blast
  have w: "save_commit_raises outage_world = None" "save_refresh_raises outage_world = None"
    "route_commit_raises outage_world = Some ''Connection lost''"
    "error_commit_raises outage_world = Some ''Connection lost''"
    by (simp_all add: outage_world_def quiet_world_def)
  obtain ret obj st' where p:
    "process_email outage_world infra_request_message ''test@example.com''
       [''infra@example.com''] initial_state = (ret, obj, st')"
    by (cases "process_email outage_world infra_request_message ''test@example.com''
       [''infra@example.com''] initial_state") auto
  have "ret = None \<and> (\<exists>x. committed st' = Some x \<and> status x = RECEIVED \<and> error x = None)"
    by (rule process_email_outage [OF x w(1) w(2) _ w(3) w(4) p]) simp
  with w show ?thesis
    by (simp add: p)
qed

lemma strip_spec:
  "\<exists>l t. v = l @ strip v @ t \<and> list_all is_space l \<and> list_all is_space t \<and>
         (strip v = [] \<or> \<not> is_space (hd (strip v)) \<and> \<not> is_space (last (strip v)))"
proof -
  define d where "d = dropWhile is_space v"
  define l where "l = takeWhile is_space v"
  define t where "t = rev (takeWhile is_space (rev d))"
  have s: "strip v = rev (dropWhile is_space (rev d))"
    by (simp add: strip_def d_def)
  have "strip v @ t = rev (takeWhile is_space (rev d) @ dropWhile is_space (rev d))"
    by (simp only: s t_def rev_append)
  also have "\<dots> = rev (rev d)"
    by (simp only: takeWhile_dropWhile_id)
  finally have dd: "d = strip v @ t"
    by simp
  have vl: "v = l @ d"
    by (simp add: l_def d_def)
  have v: "v = l @ strip v @ t"
    by (subst dd [symmetric]) (rule vl)
  have l: "list_all is_space l"
    by (simp add: l_def list_all_iff) (meson set_takeWhileD)
  have t: "list_all is_space t"
    by (simp add: t_def list_all_iff) (meson set_takeWhileD)
  have e: "strip v = [] \<or> \<not> is_space (hd (strip v)) \<and> \<not> is_space (last (strip v))"
  proof (cases "strip v = []")
    case True
    then show ?thesis by simp
  next
    case False
    then have ne: "dropWhile is_space (rev d) \<noteq> []"
      by (simp add: s)
    have "last (strip v) = hd (dropWhile is_space (rev d))"
      using ne by (simp add: s last_rev)
    then have la: "\<not> is_space (last (strip v))"
      using ne hd_dropWhile by metis
    from False dd have "d \<noteq> []" by auto
    then have "\<not> is_space (hd d)"
      unfolding d_def using hd_dropWhile by metis
    moreover have "hd d = hd (strip v)"
      using dd False by (metis hd_append2)
    ultimately show ?thesis using la by simp
  qed
  from v l t e show ?thesis by blast
qed

lemma no_subject_header:
  "get_header (headers msg) ''Subject'' = None \<Longrightarrow>
   strip (msg_get msg ''Subject'' ''No Subject'') = ''No Subject''"
  by (simp add: msg_get_def strip_def is_space_def)

text \<open>
  C10. The record that \<open>process_email\<close> creates, returns and commits has as subject the
  value of the Subject header with leading and trailing whitespace stripped, where a
  message without Subject header counts as having the value "No Subject", so that its
  record has exactly the subject "No Subject". Stripping removes a run of whitespace
  characters at either end and leaves a text that neither starts nor ends with one.
\<close>

theorem stored_subject:
  "(case process_email w msg s r st of
      (ret, obj, st') \<Rightarrow>
        (\<forall>x. ret = Some x \<or> obj = Some x \<longrightarrow>
           subject x = strip (msg_get msg ''Subject'' ''No Subject'')) \<and>
        (\<forall>x. committed st' = Some x \<longrightarrow>
           committed st = Some x \<or>
           subject x = strip (msg_get msg ''Subject'' ''No Subject''))) \<and>
   (\<forall>v. get_header (headers msg) ''Subject'' = Some v \<longrightarrow>
      msg_get msg ''Subject'' ''No Subject'' = v) \<and>
   (get_header (headers msg) ''Subject'' = None \<longrightarrow>
      strip (msg_get msg ''Subject'' ''No Subject'') = ''No Subject'') \<and>
   (\<exists>l t. v = l @ strip v @ t \<and> list_all is_space l \<and> list_all is_space t \<and>
          (strip v = [] \<or> \<not> is_space (hd (strip v)) \<and> \<not> is_space (last (strip v))))"
proof -
  have 1: "(case process_email w msg s r st of
      (ret, obj, st') \<Rightarrow>
        (\<forall>x. ret = Some x \<or> obj = Some x \<longrightarrow>
           subject x = strip (msg_get msg ''Subject'' ''No Subject'')) \<and>
        (\<forall>x. committed st' = Some x \<longrightarrow>
           committed st = Some x \<or>
           subject x = strip (msg_get msg ''Subject'' ''No Subject'')))"
  proof (cases "process_email w msg s r st")
    case (fields ret obj st')
    have a: "\<forall>x. ret = Some x \<or> obj = Some x \<longrightarrow>
           subject x = strip (msg_get msg ''Subject'' ''No Subject'')"
      using process_email_keeps [OF fields] process_email_returned [OF fields] by blast
    have b: "\<forall>x. committed st' = Some x \<longrightarrow>
           committed st = Some x \<or>
           subject x = strip (msg_get msg ''Subject'' ''No Subject'')"
      using process_email_committed [OF fields] by blast
    from a b show ?thesis unfolding fields prod.case by blast
  qed
  have 2: "\<forall>v. get_header (headers msg) ''Subject'' = Some v \<longrightarrow>
      msg_get msg ''Subject'' ''No Subject'' = v"
    by (simp add: msg_get_def)
  from 1 2 no_subject_header [of msg] strip_spec [of v] show ?thesis by blast
qed

theorem stored_subject_witness:
  "get_header (headers no_subject_message) ''Subject'' = None \<and>
   (\<exists>x. fst (process_email quiet_world no_subject_message ''test@example.com''
               [''recipient@example.com''] initial_state) = Some x \<and>
        subject x = ''No Subject'') \<and>
   (\<exists>x. committed (snd (snd (process_email quiet_world no_subject_message ''test@example.com''
               [''recipient@example.com''] initial_state))) = Some x \<and>
        subject x = ''No Subject'') \<and>
   get_header (headers infra_request_message) ''Subject''
     = Some ''[Infra Request] Need new server''"
proof -
  have h: "get_header (headers no_subject_message) ''Subject'' = None"
    by (simp add: no_subject_message_def lower_def lower_char_def)
  have h2: "get_header (headers infra_request_message) ''Subject''
     = Some ''[Infra Request] Need new server''"
    by (simp add: infra_request_message_def lower_def lower_char_def)
  have e: "extract_email_content quiet_world no_subject_message (Suc (ids_drawn initial_state))
     = Inr (''This is a test email body'', ''text/plain'', [], Suc (ids_drawn initial_state))"
    by (simp add: extract_email_content_def no_subject_message_def)
  obtain ret obj st' where p:
    "process_email quiet_world no_subject_message ''test@example.com''
       [''recipient@example.com''] initial_state = (ret, obj, st')"
    by (cases "process_email quiet_world no_subject_message ''test@example.com''
       [''recipient@example.com''] initial_state") auto
  have "\<exists>x. ret = Some x \<and> obj = Some x \<and> committed st' = Some x"
    by (rule process_email_returns [OF e _ _ _ _ p]) (simp_all add: quiet_world_def)
  with h h2 p
    stored_subject [where w = quiet_world and msg = no_subject_message
      and s = "''test@example.com''" and r = "[''recipient@example.com'']"
      and st = initial_state]
  show ?thesis
    by (auto simp: initial_state_def)
qed

end
